theory Spec2Isabelle
  imports Complex_Main "HOL-Library.Sublist"
begin

section \<open>Convergence analysis of well-tempered metadynamics runs\<close>

text \<open>
  A shallow embedding of \<^verbatim>\<open>scripts/analyze_convergence.py\<close>.

  Conventions of the embedding.
  \<^item> NumPy's \<^verbatim>\<open>float64\<close> values are idealised as \<^typ>\<open>real\<close>: rounding, \<^verbatim>\<open>inf\<close> and
    \<^verbatim>\<open>nan\<close> are not represented. Where NumPy would produce \<^verbatim>\<open>nan\<close> (the mean of an empty
    array) the model produces the value of the same formula over the reals.
  \<^item> A two-dimensional array is the list of its rows, \<^typ>\<open>real list list\<close>.
  \<^item> An exception or \<^verbatim>\<open>sys.exit\<close> is the left summand of a result \<open>error + 'a\<close>.
  \<^item> Messages printed to the terminal are not part of the state unless a statement below is
    about them.
\<close>

subsection \<open>Errors\<close>

datatype error =
    SystemExit int string  \<comment> \<open>\<^verbatim>\<open>sys.exit(code)\<close> after writing the message to stderr\<close>
  | ValueError
  | IndexError
  | ZeroDivisionError

text \<open>
  \<^verbatim>\<open>SystemExit\<close> derives from \<^verbatim>\<open>BaseException\<close>, not from \<^verbatim>\<open>Exception\<close>: a handler
  \<^verbatim>\<open>except Exception\<close> catches the other three and lets \<^verbatim>\<open>SystemExit\<close> through.
\<close>

fun is_Exception :: "error \<Rightarrow> bool" where
  "is_Exception (SystemExit c m) = False"
| "is_Exception ValueError = True"
| "is_Exception IndexError = True"
| "is_Exception ZeroDivisionError = True"

subsection \<open>The NumPy and Python primitives the script calls\<close>

text \<open>\<^verbatim>\<open>xs[start:end]\<close> for non-negative bounds: out-of-range bounds are clamped.\<close>

definition py_slice :: "'a list \<Rightarrow> nat \<Rightarrow> nat \<Rightarrow> 'a list" where
  "py_slice xs start end = take (end - start) (drop start xs)"

text \<open>\<^verbatim>\<open>range(n)\<close> for a Python integer: empty when \<open>n \<le> 0\<close>.\<close>

definition py_range :: "int \<Rightarrow> nat list" where
  "py_range n = [0..<nat n]"

text \<open>\<^verbatim>\<open>np.mean\<close> and \<^verbatim>\<open>np.std\<close> with their defaults; \<^verbatim>\<open>np.std\<close> has \<^verbatim>\<open>ddof=0\<close>, that is,
  it divides the sum of squared deviations by the number of elements.\<close>

definition np_mean :: "real list \<Rightarrow> real" where
  "np_mean xs = sum_list xs / real (length xs)"

definition np_std :: "real list \<Rightarrow> real" where
  "np_std xs = sqrt (np_mean (map (\<lambda>x. (x - np_mean xs)\<^sup>2) xs))"

subsection \<open>Block averaging\<close>

text \<open>
  \<^verbatim>\<open>
  def block_averaging(data, n_blocks=5):
      block_size = len(data) // n_blocks
      if block_size == 0:
          return np.mean(data), np.std(data), [np.mean(data)]
      block_means = []
      for i in range(n_blocks):
          start = i * block_size
          end = start + block_size
          block_means.append(np.mean(data[start:end]))
      block_means = np.array(block_means)
      mean = np.mean(block_means)
      stderr = np.std(block_means) / np.sqrt(n_blocks)
      return mean, stderr, block_means.tolist()
  \<close>
  \<^verbatim>\<open>//\<close> on Python integers is floor division (\<open>div\<close> on \<^typ>\<open>int\<close>) and raises
  \<^verbatim>\<open>ZeroDivisionError\<close> for a zero divisor. The loop body runs only for \<open>n_blocks > 0\<close>,
  where \<open>block_size > 0\<close>, so the slice bounds are natural numbers.
\<close>

definition block_means_of :: "real list \<Rightarrow> int \<Rightarrow> int \<Rightarrow> real list" where
  "block_means_of data n_blocks block_size =
     map (\<lambda>i. let start = i * nat block_size; end = start + nat block_size
              in np_mean (py_slice data start end))
         (py_range n_blocks)"

definition block_averaging :: "real list \<Rightarrow> int \<Rightarrow> error + real \<times> real \<times> real list" where
  "block_averaging data n_blocks =
     (if n_blocks = 0 then Inl ZeroDivisionError
      else let block_size = int (length data) div n_blocks in
        if block_size = 0 then Inr (np_mean data, np_std data, [np_mean data])
        else let block_means = block_means_of data n_blocks block_size;
                 mean = np_mean block_means;
                 stderr = np_std block_means / sqrt (real_of_int n_blocks)
             in Inr (mean, stderr, block_means))"

text \<open>The standard deviation with Bessel's correction (divisor \<open>n - 1\<close>), which is what
  "sample standard deviation" denotes; it is \<^verbatim>\<open>np.std(xs, ddof=1)\<close> and occurs nowhere in
  the script.\<close>

definition sample_std :: "real list \<Rightarrow> real" where
  "sample_std xs = sqrt (sum_list (map (\<lambda>x. (x - np_mean xs)\<^sup>2) xs) / (real (length xs) - 1))"

subsection \<open>Text primitives\<close>

text \<open>
  \<^verbatim>\<open>str.strip()\<close> and \<^verbatim>\<open>str.split()\<close> without arguments work on whitespace. Characters are
  bytes here, so the whitespace characters are the ASCII ones of \<^verbatim>\<open>str.isspace\<close>: space,
  \<^verbatim>\<open>\t \n \v \f \r\<close> and the separators \<^verbatim>\<open>0x1c\<close> to \<^verbatim>\<open>0x1f\<close>.
\<close>

definition is_space :: "char \<Rightarrow> bool" where
  "is_space c = (c \<in> set [CHR '' '', CHR 0x09, CHR 0x0A, CHR 0x0B, CHR 0x0C, CHR 0x0D,
                           CHR 0x1C, CHR 0x1D, CHR 0x1E, CHR 0x1F])"

definition str_strip :: "string \<Rightarrow> string" where
  "str_strip s = rev (dropWhile is_space (rev (dropWhile is_space s)))"

text \<open>\<^verbatim>\<open>s.split()\<close>: the maximal runs of non-whitespace characters, in order.\<close>

fun tokens :: "string \<Rightarrow> string \<Rightarrow> string list" where
  "tokens cur [] = (if cur = [] then [] else [cur])"
| "tokens cur (c # cs) =
     (if is_space c then (if cur = [] then tokens [] cs else cur # tokens [] cs)
      else tokens (cur @ [c]) cs)"

definition str_split :: "string \<Rightarrow> string list" where
  "str_split s = tokens [] s"

definition startswith :: "string \<Rightarrow> string \<Rightarrow> bool" where
  "startswith s p = (take (length p) s = p)"

text \<open>
  Python's built-in \<^verbatim>\<open>float(x)\<close> is a parameter \<open>pyfloat\<close> of the loader: \<open>None\<close> stands
  for \<^verbatim>\<open>ValueError\<close>. The list comprehension \<^verbatim>\<open>[float(x) for x in line.split()]\<close> converts
  the tokens from left to right and raises at the first token that does not convert.
\<close>

fun float_all :: "(string \<Rightarrow> real option) \<Rightarrow> string list \<Rightarrow> real list option" where
  "float_all pyfloat [] = Some []"
| "float_all pyfloat (x # xs) =
     (case pyfloat x of
        None \<Rightarrow> None
      | Some v \<Rightarrow> (case float_all pyfloat xs of None \<Rightarrow> None | Some vs \<Rightarrow> Some (v # vs)))"

text \<open>
  For running the loader on concrete text, \<open>dec_float\<close> is \<^verbatim>\<open>float\<close> restricted to plain
  decimal literals: an optional sign, digits, and at most one decimal point, with at least
  one digit. (Python's \<^verbatim>\<open>float\<close> accepts more: exponents, \<^verbatim>\<open>inf\<close>, \<^verbatim>\<open>nan\<close>, underscores.)
  No theorem about the loader depends on this choice except through concrete runs.
\<close>

definition digit_val :: "char \<Rightarrow> nat option" where
  "digit_val c = (let n = (of_char c :: nat) in if 48 \<le> n \<and> n \<le> 57 then Some (n - 48) else None)"

fun digits_acc :: "nat \<Rightarrow> string \<Rightarrow> nat option" where
  "digits_acc a [] = Some a"
| "digits_acc a (c # cs) =
     (case digit_val c of None \<Rightarrow> None | Some d \<Rightarrow> digits_acc (10 * a + d) cs)"

definition unsigned_dec :: "string \<Rightarrow> real option" where
  "unsigned_dec body =
     (let ip = takeWhile (\<lambda>c. c \<noteq> CHR ''.'') body;
          fp = (case dropWhile (\<lambda>c. c \<noteq> CHR ''.'') body of [] \<Rightarrow> [] | dot # f \<Rightarrow> f)
      in if ip = [] \<and> fp = [] then None
         else (case (digits_acc 0 ip, digits_acc 0 fp) of
                 (Some a, Some b) \<Rightarrow> Some (real a + real b / 10 ^ length fp)
               | _ \<Rightarrow> None))"

fun dec_float :: "string \<Rightarrow> real option" where
  "dec_float [] = None"
| "dec_float (c # cs) =
     (if c = CHR ''-'' then map_option uminus (unsigned_dec cs)
      else if c = CHR ''+'' then unsigned_dec cs
      else unsigned_dec (c # cs))"

subsection \<open>Record loader\<close>

text \<open>
  \<^verbatim>\<open>
  def load_plumed_file(filepath, comment='#'):
      data = []
      with open(filepath, 'r') as f:
          for line in f:
              line = line.strip()
              if not line or line.startswith(comment) or line.startswith('@'):
                  continue
              try:
                  values = [float(x) for x in line.split()]
                  data.append(values)
              except ValueError:
                  continue
      if not data:
          print(f"ERROR: No se encontraron datos en {filepath}", file=sys.stderr)
          sys.exit(1)
      return np.array(data)
  \<close>
  The file is the list of its lines, as the iteration over the file object yields them.
  \<open>collect_rows\<close> is the loop: it returns \<^verbatim>\<open>data\<close>, the rows in file order.
\<close>

fun collect_rows :: "(string \<Rightarrow> real option) \<Rightarrow> string \<Rightarrow> string list \<Rightarrow> real list list" where
  "collect_rows pyfloat comment [] = []"
| "collect_rows pyfloat comment (raw # rest) =
     (let line = str_strip raw in
      if line = [] \<or> startswith line comment \<or> startswith line ''@''
      then collect_rows pyfloat comment rest
      else (case float_all pyfloat (str_split line) of
              Some values \<Rightarrow> values # collect_rows pyfloat comment rest
            | None \<Rightarrow> collect_rows pyfloat comment rest))"

text \<open>
  \<^verbatim>\<open>np.array\<close> on a list of rows builds a two-dimensional array when all rows have the same
  length. For rows of different lengths NumPy (1.24 and later) raises \<^verbatim>\<open>ValueError\<close>
  ("inhomogeneous shape"); earlier releases built a one-dimensional array of list objects,
  which the script cannot index by column either. The model follows the current behaviour.
\<close>

definition np_array :: "real list list \<Rightarrow> error + real list list" where
  "np_array rows =
     (if list_all (\<lambda>r. length r = length (hd rows)) rows then Inr rows else Inl ValueError)"

definition load_plumed_file ::
  "(string \<Rightarrow> real option) \<Rightarrow> string \<Rightarrow> string \<Rightarrow> string list \<Rightarrow> error + real list list" where
  "load_plumed_file pyfloat filepath comment file_lines =
     (let data = collect_rows pyfloat comment file_lines in
      if data = [] then Inl (SystemExit 1 (''ERROR: No se encontraron datos en '' @ filepath))
      else np_array data)"

text \<open>The lines the specification counts: not empty after trimming, not a comment, not
  metadata, and every whitespace-separated token converts to a number.\<close>

definition is_data_line :: "(string \<Rightarrow> real option) \<Rightarrow> string \<Rightarrow> string \<Rightarrow> bool" where
  "is_data_line pyfloat comment raw =
     (str_strip raw \<noteq> [] \<and> \<not> startswith (str_strip raw) comment \<and>
      \<not> startswith (str_strip raw) ''@'' \<and>
      list_all (\<lambda>tok. pyfloat tok \<noteq> None) (str_split (str_strip raw)))"

text \<open>The row a data line contributes, and the condition that all lines of a list have the
  same number of tokens.\<close>

definition row_of :: "(string \<Rightarrow> real option) \<Rightarrow> string \<Rightarrow> real list" where
  "row_of pyfloat raw = map (\<lambda>tok. the (pyfloat tok)) (str_split (str_strip raw))"

definition same_token_count :: "string list \<Rightarrow> bool" where
  "same_token_count ls =
     list_all (\<lambda>raw. length (str_split (str_strip raw)) = length (str_split (str_strip (hd ls))))
              ls"

subsection \<open>Array access\<close>

text \<open>
  \<^verbatim>\<open>a[:, k]\<close> on a two-dimensional array with \<open>c\<close> columns: a Python index \<open>k\<close> with
  \<open>-c \<le> k < c\<close> selects column \<open>k\<close>, counted from the end when negative; any other index
  raises \<^verbatim>\<open>IndexError\<close>. \<^verbatim>\<open>a.shape[1]\<close> is the length of a row.
\<close>

definition np_column :: "real list list \<Rightarrow> int \<Rightarrow> error + real list" where
  "np_column a k =
     (if a = [] then Inl IndexError
      else let c = int (length (hd a)) in
        if 0 \<le> k \<and> k < c then Inr (map (\<lambda>r. r ! nat k) a)
        else if - c \<le> k \<and> k < 0 then Inr (map (\<lambda>r. r ! nat (c + k)) a)
        else Inl IndexError)"

text \<open>\<^verbatim>\<open>np.max\<close> and \<^verbatim>\<open>np.min\<close> raise \<^verbatim>\<open>ValueError\<close> on an empty array.\<close>

definition np_max :: "real list \<Rightarrow> error + real" where
  "np_max xs = (if xs = [] then Inl ValueError else Inr (Max (set xs)))"

definition np_min :: "real list \<Rightarrow> error + real" where
  "np_min xs = (if xs = [] then Inl ValueError else Inr (Min (set xs)))"

text \<open>\<^verbatim>\<open>np.linspace(start, stop, num)\<close>: \<open>num\<close> equally spaced values from \<open>start\<close> to
  \<open>stop\<close>, both included; \<^verbatim>\<open>ValueError\<close> for a negative \<open>num\<close>.\<close>

definition np_linspace :: "real \<Rightarrow> real \<Rightarrow> int \<Rightarrow> error + real list" where
  "np_linspace start stop num =
     (if num < 0 then Inl ValueError
      else if num = 1 then Inr [start]
      else Inr (map (\<lambda>i. start + real i * ((stop - start) / real_of_int (num - 1)))
                    [0..<nat num]))"

subsection \<open>Bias-decay analysis\<close>

text \<open>
  \<^verbatim>\<open>
  def analyze_hills_convergence(hills_file):
      hills = load_plumed_file(hills_file)
      time = hills[:, 0]
      n_cols = hills.shape[1]
      height_col = n_cols - 2  # Penultima columna
      heights = hills[:, height_col]
      if np.std(heights) < 1e-6:
          print("  WARNING: Alturas constantes ...")
      n_gaussians = len(heights)
      h_initial = heights[0] if n_gaussians > 0 else 0
      h_final = heights[-1] if n_gaussians > 0 else 0
      h_ratio = h_final / h_initial if h_initial > 0 else 0
      result = {'time': time, 'heights': heights, 'n_gaussians': n_gaussians,
                'h_initial': h_initial, 'h_final': h_final, 'h_ratio': h_ratio,
                'total_time_ps': time[-1] if n_gaussians > 0 else 0}
      return result
  \<close>
  \<open>analyze_hills_table\<close> is the function from its second line on, applied to the loaded
  table. The warning is printed only and does not change the result.
\<close>

record hills_conv =
  time :: "real list"
  heights :: "real list"
  n_gaussians :: nat
  h_initial :: real
  h_final :: real
  h_ratio :: real
  total_time_ps :: real

definition analyze_hills_table :: "real list list \<Rightarrow> error + hills_conv" where
  "analyze_hills_table hills =
     (case np_column hills 0 of
        Inl e \<Rightarrow> Inl e
      | Inr tm \<Rightarrow>
          let n_cols = int (length (hd hills));
              height_col = n_cols - 2
          in (case np_column hills height_col of
                Inl e \<Rightarrow> Inl e
              | Inr hs \<Rightarrow>
                  let n = length hs;
                      h_i = (if n > 0 then hd hs else 0);
                      h_f = (if n > 0 then last hs else 0);
                      ratio = (if h_i > 0 then h_f / h_i else 0)
                  in Inr \<lparr>time = tm, heights = hs, n_gaussians = n, h_initial = h_i,
                          h_final = h_f, h_ratio = ratio,
                          total_time_ps = (if n > 0 then last tm else 0)\<rparr>))"

definition analyze_hills_convergence ::
  "(string \<Rightarrow> real option) \<Rightarrow> string \<Rightarrow> string list \<Rightarrow> error + hills_conv" where
  "analyze_hills_convergence pyfloat hills_file file_lines =
     (case load_plumed_file pyfloat hills_file ''#'' file_lines of
        Inl e \<Rightarrow> Inl e
      | Inr hills \<Rightarrow> analyze_hills_table hills)"

subsection \<open>Time-resolved free-energy span\<close>

text \<open>
  \<^verbatim>\<open>
  def compute_deltaG_vs_time(colvar_file, hills_file, args, n_blocks=10):
      colvar = load_plumed_file(colvar_file)
      time = colvar[:, 0]
      total_time = time[-1]
      block_times = np.linspace(total_time / n_blocks, total_time, n_blocks)
      deltaG_values = []
      for t_block in block_times:
          hills = load_plumed_file(hills_file)
          mask = hills[:, 0] <= t_block
          if not np.any(mask):
              continue
          hills_block = hills[mask]
          temp_hills = f"/tmp/hills_block_{t_block:.0f}.dat"
          np.savetxt(temp_hills, hills_block, fmt='%.6f')
          temp_fes = f"/tmp/fes_block_{t_block:.0f}.dat"
          cmd = ["plumed", "sum_hills", "--hills", temp_hills, "--outfile", temp_fes,
                 "--mintozero"]
          if args.kt:
              cmd.extend(["--kt", str(args.kt)])
          result = subprocess.run(cmd, capture_output=True, text=True)
          if result.returncode == 0 and os.path.exists(temp_fes):
              try:
                  fes = load_plumed_file(temp_fes)
                  fes_values = fes[:, -1]
                  delta_g = np.max(fes_values) - np.min(fes_values)
                  deltaG_values.append((t_block, delta_g))
              except Exception:
                  pass
          for f in [temp_hills, temp_fes]:
              if os.path.exists(f):
                  os.remove(f)
      return {'times': [dg[0] for dg in deltaG_values],
              'deltaG': [dg[1] for dg in deltaG_values]}
  \<close>
  The external program is a parameter \<open>sum_hills\<close>: from the window bound and the bias
  records written for it, it gives the exit status and the lines of the output file, or
  \<open>None\<close> when no file exists at the output path afterwards. The \<^verbatim>\<open>:.0f\<close> formatting
  of the bound in the file names is the parameter \<open>fmt0\<close>. The removal of the temporary
  files is not modelled. The division \<^verbatim>\<open>total_time / n_blocks\<close> is one of NumPy scalars and
  does not raise for \<open>n_blocks = 0\<close>; \<^verbatim>\<open>np.linspace\<close> then returns no bounds at all.
\<close>

record proc_result =
  returncode :: int
  outfile :: "string list option"

text \<open>The body of the \<^verbatim>\<open>try\<close> block, up to the span.\<close>

definition window_span ::
  "(string \<Rightarrow> real option) \<Rightarrow> string \<Rightarrow> string list \<Rightarrow> error + real" where
  "window_span pyfloat temp_fes fes_lines =
     (case load_plumed_file pyfloat temp_fes ''#'' fes_lines of
        Inl e \<Rightarrow> Inl e
      | Inr fes \<Rightarrow>
          (case np_column fes (- 1) of
             Inl e \<Rightarrow> Inl e
           | Inr fes_values \<Rightarrow>
               (case np_max fes_values of
                  Inl e \<Rightarrow> Inl e
                | Inr mx \<Rightarrow> (case np_min fes_values of
                               Inl e \<Rightarrow> Inl e
                             | Inr mn \<Rightarrow> Inr (mx - mn)))))"

fun deltaG_loop ::
  "(string \<Rightarrow> real option) \<Rightarrow> (real \<Rightarrow> string) \<Rightarrow> (real \<Rightarrow> real list list \<Rightarrow> proc_result) \<Rightarrow>
   string \<Rightarrow> string list \<Rightarrow> real list \<Rightarrow> (real \<times> real) list \<Rightarrow> error + (real \<times> real) list" where
  "deltaG_loop pyfloat fmt0 sum_hills hills_file hills_lines [] deltaG_values = Inr deltaG_values"
| "deltaG_loop pyfloat fmt0 sum_hills hills_file hills_lines (t_block # rest) deltaG_values =
     (case load_plumed_file pyfloat hills_file ''#'' hills_lines of
        Inl e \<Rightarrow> Inl e
      | Inr hills \<Rightarrow>
          (case np_column hills 0 of
             Inl e \<Rightarrow> Inl e
           | Inr hills_time \<Rightarrow>
               let mask = map (\<lambda>t. t \<le> t_block) hills_time in
               if \<not> list_ex (\<lambda>b. b) mask
               then deltaG_loop pyfloat fmt0 sum_hills hills_file hills_lines rest deltaG_values
               else
                 let hills_block = map fst (filter snd (zip hills mask));
                     temp_fes = ''/tmp/fes_block_'' @ fmt0 t_block @ ''.dat'';
                     result = sum_hills t_block hills_block
                 in if returncode result = 0 \<and> outfile result \<noteq> None
                    then (case window_span pyfloat temp_fes (the (outfile result)) of
                            Inr delta_g \<Rightarrow>
                              deltaG_loop pyfloat fmt0 sum_hills hills_file hills_lines rest
                                (deltaG_values @ [(t_block, delta_g)])
                          | Inl e \<Rightarrow>
                              if is_Exception e
                              then deltaG_loop pyfloat fmt0 sum_hills hills_file hills_lines rest
                                     deltaG_values
                              else Inl e)
                    else deltaG_loop pyfloat fmt0 sum_hills hills_file hills_lines rest
                           deltaG_values))"

record deltaG_data =
  times :: "real list"
  deltaG :: "real list"

definition compute_deltaG_vs_time ::
  "(string \<Rightarrow> real option) \<Rightarrow> (real \<Rightarrow> string) \<Rightarrow> (real \<Rightarrow> real list list \<Rightarrow> proc_result) \<Rightarrow>
   string \<Rightarrow> string list \<Rightarrow> string \<Rightarrow> string list \<Rightarrow> int \<Rightarrow> error + deltaG_data" where
  "compute_deltaG_vs_time pyfloat fmt0 sum_hills colvar_file colvar_lines hills_file hills_lines
       n_blocks =
     (case load_plumed_file pyfloat colvar_file ''#'' colvar_lines of
        Inl e \<Rightarrow> Inl e
      | Inr colvar \<Rightarrow>
          (case np_column colvar 0 of
             Inl e \<Rightarrow> Inl e
           | Inr tm \<Rightarrow>
               let total_time = last tm in
               (case np_linspace (total_time / real_of_int n_blocks) total_time n_blocks of
                  Inl e \<Rightarrow> Inl e
                | Inr block_times \<Rightarrow>
                    (case deltaG_loop pyfloat fmt0 sum_hills hills_file hills_lines
                            block_times [] of
                       Inl e \<Rightarrow> Inl e
                     | Inr deltaG_values \<Rightarrow>
                         Inr \<lparr>times = map fst deltaG_values,
                              deltaG = map snd deltaG_values\<rparr>))))"

subsection \<open>Local minima of a one-dimensional profile\<close>

text \<open>
  \<^verbatim>\<open>
  def find_fes_minima(fes_file, energy_window_kj=2.5):
      if not os.path.exists(fes_file):
          return None
      try:
          data = load_plumed_file(fes_file)
      except SystemExit:
          return None
      if data.ndim < 2 or data.shape[1] < 2:
          return None
      cv_vals = data[:, 0]
      fes_vals = data[:, 1] - np.min(data[:, 1])   # normalizar a 0
      window = max(3, len(fes_vals) // 50)
      try:
          from scipy.signal import argrelmin
          local_min_idx = list(argrelmin(fes_vals, order=window)[0])
      except ImportError:
          local_min_idx = [
              i for i in range(window, len(fes_vals) - window)
              if fes_vals[i] == np.min(fes_vals[max(0, i-window):i+window+1])
          ]
      if not local_min_idx:
          return None
      # Filtrar minimos separados por una barrera >= energy_window_kj
      filtered = [local_min_idx[0]]
      for idx in local_min_idx[1:]:
          barrier = np.max(fes_vals[filtered[-1]:idx+1]) - fes_vals[idx]
          if barrier >= energy_window_kj:
              filtered.append(idx)
      min_cv = cv_vals[filtered]
      min_e = fes_vals[filtered]
      pairs = [(i, j, float(min_e[j] - min_e[i]))
               for i in range(len(filtered)) for j in range(i + 1, len(filtered))]
      return {'cv': min_cv.tolist(), 'energies': min_e.tolist(),
              'deltaG_pairs': pairs, 'n_minima': len(filtered)}
  \<close>
\<close>

text \<open>
  The candidate detector used when SciPy cannot be imported. The bounds of the range are
  Python integers; a negative upper bound gives the empty range, as truncating subtraction
  does here. Inside the range \<open>i \<ge> window\<close>, so \<^verbatim>\<open>max(0, i-window)\<close> is \<open>i - window\<close>.
\<close>

definition fallback_minima :: "real list \<Rightarrow> nat \<Rightarrow> nat list" where
  "fallback_minima fes_vals window =
     filter (\<lambda>i. fes_vals ! i =
                   Min (set (py_slice fes_vals (max 0 (i - window)) (i + window + 1))))
            [window..<length fes_vals - window]"

text \<open>
  \<^verbatim>\<open>scipy.signal.argrelmin(data, order=n)\<close> is library code. As documented, with its default
  \<^verbatim>\<open>mode='clip'\<close> it returns the indices \<open>i\<close> whose value is strictly less than the values
  at \<open>i + s\<close> and \<open>i - s\<close> for every shift \<open>s = 1, \<dots>, n\<close>, where an index beyond an end of
  the array is replaced by the index of that end.
\<close>

definition argrelmin :: "real list \<Rightarrow> nat \<Rightarrow> nat list" where
  "argrelmin xs order =
     filter (\<lambda>i. list_all (\<lambda>s. xs ! i < xs ! min (i + s) (length xs - 1) \<and> xs ! i < xs ! (i - s))
                           [1..<order + 1])
            [0..<length xs]"

text \<open>The filtering loop; \<open>filtered\<close> is the list built so far, \<^verbatim>\<open>filtered[-1]\<close> its last
  element. \<^verbatim>\<open>np.max\<close> is evaluated before \<^verbatim>\<open>fes_vals[idx]\<close>.\<close>

fun filter_loop :: "real list \<Rightarrow> real \<Rightarrow> nat list \<Rightarrow> nat list \<Rightarrow> error + nat list" where
  "filter_loop fes_vals energy_window_kj filtered [] = Inr filtered"
| "filter_loop fes_vals energy_window_kj filtered (idx # rest) =
     (case np_max (py_slice fes_vals (last filtered) (idx + 1)) of
        Inl e \<Rightarrow> Inl e
      | Inr mx \<Rightarrow>
          if length fes_vals \<le> idx then Inl IndexError
          else let barrier = mx - fes_vals ! idx in
            if barrier \<ge> energy_window_kj
            then filter_loop fes_vals energy_window_kj (filtered @ [idx]) rest
            else filter_loop fes_vals energy_window_kj filtered rest)"

text \<open>Lines 303 to 308: the filtering of a non-empty candidate list.\<close>

definition filter_minima :: "real list \<Rightarrow> real \<Rightarrow> nat list \<Rightarrow> error + nat list" where
  "filter_minima fes_vals energy_window_kj local_min_idx =
     filter_loop fes_vals energy_window_kj [hd local_min_idx] (tl local_min_idx)"

record minima =
  cv :: "real list"
  energies :: "real list"
  deltaG_pairs :: "(nat \<times> nat \<times> real) list"
  n_minima :: nat

definition pairs_of :: "real list \<Rightarrow> (nat \<times> nat \<times> real) list" where
  "pairs_of min_e =
     concat (map (\<lambda>i. map (\<lambda>j. (i, j, min_e ! j - min_e ! i)) [i + 1..<length min_e])
                 [0..<length min_e])"

text \<open>The function from the shape test on, applied to the loaded table; \<open>scipy\<close> tells
  whether the import of SciPy succeeds. A loaded table always has two dimensions.\<close>

definition fes_minima_of_table :: "bool \<Rightarrow> real list list \<Rightarrow> real \<Rightarrow> error + minima option" where
  "fes_minima_of_table scipy data energy_window_kj =
     (if length (hd data) < 2 then Inr None
      else
        let cv_vals = map (\<lambda>r. r ! 0) data;
            col1 = map (\<lambda>r. r ! 1) data;
            fes_vals = map (\<lambda>e. e - Min (set col1)) col1;
            window = max 3 (length fes_vals div 50);
            local_min_idx = (if scipy then argrelmin fes_vals window
                             else fallback_minima fes_vals window)
        in if local_min_idx = [] then Inr None
           else (case filter_minima fes_vals energy_window_kj local_min_idx of
                   Inl e \<Rightarrow> Inl e
                 | Inr filtered \<Rightarrow>
                     let min_cv = map (\<lambda>i. cv_vals ! i) filtered;
                         min_e = map (\<lambda>i. fes_vals ! i) filtered
                     in Inr (Some \<lparr>cv = min_cv, energies = min_e,
                                   deltaG_pairs = pairs_of min_e,
                                   n_minima = length filtered\<rparr>)))"

text \<open>The whole function; \<open>fes\<close> is \<open>None\<close> when the path does not exist.\<close>

definition find_fes_minima ::
  "(string \<Rightarrow> real option) \<Rightarrow> bool \<Rightarrow> string \<Rightarrow> string list option \<Rightarrow> real \<Rightarrow>
   error + minima option" where
  "find_fes_minima pyfloat scipy fes_file fes energy_window_kj =
     (case fes of
        None \<Rightarrow> Inr None
      | Some fes_lines \<Rightarrow>
          (case load_plumed_file pyfloat fes_file ''#'' fes_lines of
             Inl (SystemExit c m) \<Rightarrow> Inr None
           | Inl e \<Rightarrow> Inl e
           | Inr data \<Rightarrow> fes_minima_of_table scipy data energy_window_kj))"

subsection \<open>The stability lines of the convergence report\<close>

text \<open>
  \<^verbatim>\<open>
      if deltaG_data['deltaG']:
          f.write(f"\n  DeltaG (ultimo bloque): {deltaG_data['deltaG'][-1]:.2f} kJ/mol\n")
          if len(deltaG_data['deltaG']) > 3:
              last_3 = deltaG_data['deltaG'][-3:]
              variation = np.std(last_3)
              f.write(f"  Variacion ultimos 3 bloques: +/-{variation:.2f} kJ/mol\n")
              if variation < 2.0:
                  f.write("  OK DeltaG estable (variacion < 2 kJ/mol)\n")
              else:
                  f.write("  WARN DeltaG inestable (variacion >= 2 kJ/mol)\n")
  \<close>
  These are lines 363 to 372 of \<^verbatim>\<open>save_convergence_report\<close>. Each line written is a
  constructor carrying the number that the source formats into it.
\<close>

datatype report_line =
    DeltaG_ultimo_bloque real
  | Variacion_ultimos_3_bloques real
  | OK_DeltaG_estable
  | WARN_DeltaG_inestable

definition deltaG_report_lines :: "real list \<Rightarrow> report_line list" where
  "deltaG_report_lines dG =
     (if dG \<noteq> [] then
        DeltaG_ultimo_bloque (last dG) #
        (if length dG > 3 then
           let last_3 = drop (length dG - 3) dG;
               variation = np_std last_3
           in Variacion_ultimos_3_bloques variation #
              (if variation < 2 then [OK_DeltaG_estable] else [WARN_DeltaG_inestable])
         else [])
      else [])"

subsection \<open>Notions used to state the properties\<close>

text \<open>The barrier the filtering loop computes for candidate \<open>idx\<close> against the anchor: the
  largest profile value from the anchor to the candidate, both included, minus the value at
  the candidate.\<close>

definition barrier_of :: "real list \<Rightarrow> nat \<Rightarrow> nat \<Rightarrow> real" where
  "barrier_of fes_vals anchor idx =
     Max (set (py_slice fes_vals anchor (idx + 1))) - fes_vals ! idx"

text \<open>The retained minimum that precedes index \<open>idx\<close>: the last retained index below it.\<close>

definition anchor_of :: "nat list \<Rightarrow> nat \<Rightarrow> nat" where
  "anchor_of retained idx = last (filter (\<lambda>r. r < idx) retained)"

text \<open>A profile with a single minimum at index \<open>m\<close> and no other local minimum: the values
  fall strictly up to \<open>m\<close> and rise strictly from \<open>m\<close> on.\<close>

definition unimodal_at :: "real list \<Rightarrow> nat \<Rightarrow> bool" where
  "unimodal_at xs m \<longleftrightarrow>
     (\<forall>i<m. xs ! Suc i < xs ! i) \<and> (\<forall>i. m \<le> i \<and> Suc i < length xs \<longrightarrow> xs ! i < xs ! Suc i)"

subsection \<open>Example inputs\<close>

text \<open>A parabola on eleven grid points, as a loaded profile table (coordinate, energy).\<close>

definition parabola :: "real list list" where
  "parabola = [[- 5, 25], [- 4, 16], [- 3, 9], [- 2, 4], [- 1, 1], [0, 0],
               [1, 1], [2, 4], [3, 9], [4, 16], [5, 25]]"

text \<open>A normalised profile with wells at indices 3 and 9 and a peak of height 5 between
  them; the second well lies at energy 3.\<close>

definition two_wells :: "real list" where
  "two_wells = [9, 6, 3, 0, 2, 4, 5, 9 / 2, 4, 3, 5, 7, 9]"

text \<open>
  Two behaviours of the external program over two windows with bounds 5 and 10. In both the
  second window succeeds. In the first behaviour the run for the first window exits with
  status 0 and leaves an output file that holds a header line and no data; in the second it
  exits with status 1 and leaves no file. \<open>fmt0_int\<close> formats the two bounds.
\<close>

definition fmt0_int :: "real \<Rightarrow> string" where
  "fmt0_int t = (if t = 5 then ''5'' else if t = 10 then ''10'' else ''?'')"

definition tool_header_only_first :: "real \<Rightarrow> real list list \<Rightarrow> proc_result" where
  "tool_header_only_first t_block hills_block =
     (if t_block \<le> 5 then \<lparr>returncode = 0, outfile = Some [''#! FIELDS cv file.free'']\<rparr>
      else \<lparr>returncode = 0,
             outfile = Some [''#! FIELDS cv file.free'', ''1.0 0'', ''1.1 3.5'']\<rparr>)"

definition tool_exit1_first :: "real \<Rightarrow> real list list \<Rightarrow> proc_result" where
  "tool_exit1_first t_block hills_block =
     (if t_block \<le> 5 then \<lparr>returncode = 1, outfile = None\<rparr>
      else \<lparr>returncode = 0,
             outfile = Some [''#! FIELDS cv file.free'', ''1.0 0'', ''1.1 3.5'']\<rparr>)"

section \<open>Properties\<close>

lemmas text_eval =
  str_strip_def is_space_def startswith_def str_split_def unsigned_dec_def digit_val_def

subsection \<open>Record loader\<close>

lemma float_all_Some_iff:
  "(\<exists>vs. float_all pf ts = Some vs) \<longleftrightarrow> list_all (\<lambda>tok. pf tok \<noteq> None) ts"
  by (induction ts) (auto split: option.splits)

lemma float_all_value: "float_all pf ts = Some vs \<Longrightarrow> vs = map (\<lambda>tok. the (pf tok)) ts"
  by (induction ts arbitrary: vs) (auto split: option.splits)

text \<open>The loop collects exactly the rows of the data lines, in file order.\<close>

lemma collect_rows_eq:
  "collect_rows pf c ls = map (row_of pf) (filter (is_data_line pf c) ls)"
proof (induction ls)
  case Nil
  show ?case by simp
next
  case (Cons raw rest)
  show ?case
  proof (cases "is_data_line pf c raw")
    case True
    then obtain vs where vs: "float_all pf (str_split (str_strip raw)) = Some vs"
      using float_all_Some_iff [of pf "str_split (str_strip raw)"] by (auto simp: is_data_line_def)
    then have "vs = row_of pf raw" by (simp add: row_of_def float_all_value)
    with True vs Cons show ?thesis by (simp add: is_data_line_def Let_def)
  next
    case False
    then have "str_strip raw = [] \<or> startswith (str_strip raw) c \<or>
        startswith (str_strip raw) ''@'' \<or> float_all pf (str_split (str_strip raw)) = None"
      using float_all_Some_iff [of pf "str_split (str_strip raw)"] by (auto simp: is_data_line_def)
    with False Cons show ?thesis by (auto simp: Let_def)
  qed
qed

lemma np_array_rows:
  "np_array (map (row_of pf) ls) =
     (if same_token_count ls then Inr (map (row_of pf) ls) else Inl ValueError)"
  by (cases ls) (simp_all add: np_array_def same_token_count_def row_of_def list_all_iff)

lemma load_eq:
  "load_plumed_file pf path c ls =
     (if filter (is_data_line pf c) ls = []
      then Inl (SystemExit 1 (''ERROR: No se encontraron datos en '' @ path))
      else if same_token_count (filter (is_data_line pf c) ls)
      then Inr (map (row_of pf) (filter (is_data_line pf c) ls)) else Inl ValueError)"
  by (simp add: load_plumed_file_def collect_rows_eq np_array_rows Let_def)

lemma load_unfold:
  "load_plumed_file pf path c ls =
     (if collect_rows pf c ls = []
      then Inl (SystemExit 1 (''ERROR: No se encontraron datos en '' @ path))
      else np_array (collect_rows pf c ls))"
  by (simp only: load_plumed_file_def Let_def)

lemma np_array_Inr:
  "np_array rows = Inr t \<Longrightarrow> t = rows \<and> (\<forall>r \<in> set t. length r = length (hd t))"
  by (simp add: np_array_def list_all_iff split: if_splits)

text \<open>
  C3, as stated, fails: a file whose data lines have different numbers of tokens yields
  collected rows, yet the loader does not return a table, because \<^verbatim>\<open>np.array\<close> raises.
\<close>

theorem load_ragged_counterexample:
  "collect_rows dec_float ''#'' [''1 2'', ''3''] = [[1, 2], [3]] \<and>
   load_plumed_file dec_float ''HILLS'' ''#'' [''1 2'', ''3''] = Inl ValueError"
  by (simp add: load_plumed_file_def text_eval np_array_def)

text \<open>
  C3, amended. The loader exits with status 1 and a message naming the path exactly when the
  file has no data line. When it has data lines that all have the same number of tokens, the
  loader returns a table with one row per data line; when their token counts differ, the
  array construction raises \<^verbatim>\<open>ValueError\<close>. A line that is not a data line (empty, comment,
  metadata, or with a token that does not convert) has no effect on the result: it is
  discarded without raising.
\<close>

theorem load_plumed_file_contract:
  "(load_plumed_file pf path c ls =
      Inl (SystemExit 1 (''ERROR: No se encontraron datos en '' @ path))
      \<longleftrightarrow> filter (is_data_line pf c) ls = []) \<and>
   (filter (is_data_line pf c) ls \<noteq> [] \<and> same_token_count (filter (is_data_line pf c) ls)
      \<longrightarrow> (\<exists>t. load_plumed_file pf path c ls = Inr t \<and>
                length t = length (filter (is_data_line pf c) ls))) \<and>
   (filter (is_data_line pf c) ls \<noteq> [] \<and> \<not> same_token_count (filter (is_data_line pf c) ls)
      \<longrightarrow> load_plumed_file pf path c ls = Inl ValueError) \<and>
   (\<not> is_data_line pf c raw
      \<longrightarrow> load_plumed_file pf path c (pre @ raw # post) = load_plumed_file pf path c (pre @ post))"
  by (simp add: load_eq)

theorem load_plumed_file_contract_witness:
  "\<not> is_data_line dec_float ''#'' ''x 3'' \<and>
   filter (is_data_line dec_float ''#'') [''# t cv'', ''1 2'', ''x 3'', ''3 4.5''] \<noteq> [] \<and>
   same_token_count
     (filter (is_data_line dec_float ''#'') [''# t cv'', ''1 2'', ''x 3'', ''3 4.5'']) \<and>
   (\<exists>t. load_plumed_file dec_float ''COLVAR'' ''#'' [''# t cv'', ''1 2'', ''x 3'', ''3 4.5'']
          = Inr t \<and> length t = 2) \<and>
   load_plumed_file dec_float ''COLVAR'' ''#'' ([''# t cv'', ''1 2''] @ ''x 3'' # [''3 4.5'']) =
     load_plumed_file dec_float ''COLVAR'' ''#'' ([''# t cv'', ''1 2''] @ [''3 4.5''])"
proof -
  let ?ls = "[''# t cv'', ''1 2'', ''x 3'', ''3 4.5'']"
  have bad: "\<not> is_data_line dec_float ''#'' ''x 3''"
    by (simp add: is_data_line_def text_eval del: not_None_eq)
  have good: "filter (is_data_line dec_float ''#'') ?ls = [''1 2'', ''3 4.5'']"
    by (simp add: is_data_line_def text_eval del: not_None_eq)
  have same: "same_token_count [''1 2'', ''3 4.5'']"
    by (simp add: same_token_count_def text_eval)
  note inst = load_plumed_file_contract [of dec_float "''COLVAR''" "''#''" ?ls
      "''x 3''" "[''# t cv'', ''1 2'']" "[''3 4.5'']"]
  have ne: "filter (is_data_line dec_float ''#'') ?ls \<noteq> []"
    by (simp only: good) simp
  have sm: "same_token_count (filter (is_data_line dec_float ''#'') ?ls)"
    by (simp only: good same)
  have len: "length (filter (is_data_line dec_float ''#'') ?ls) = 2"
    by (simp only: good) simp
  from inst ne sm
  have "\<exists>t. load_plumed_file dec_float ''COLVAR'' ''#'' ?ls = Inr t \<and>
            length t = length (filter (is_data_line dec_float ''#'') ?ls)"
    by blast
  then have ex: "\<exists>t. load_plumed_file dec_float ''COLVAR'' ''#'' ?ls = Inr t \<and> length t = 2"
    by (simp only: len)
  from inst bad
  have drop: "load_plumed_file dec_float ''COLVAR'' ''#''
                ([''# t cv'', ''1 2''] @ ''x 3'' # [''3 4.5'']) =
              load_plumed_file dec_float ''COLVAR'' ''#'' ([''# t cv'', ''1 2''] @ [''3 4.5''])"
    by blast
  from bad ne sm ex drop show ?thesis by blast
qed

text \<open>
  C9. Every table the loader returns is non-empty, and all its rows have the same number of
  columns.
\<close>

theorem loaded_table_shape:
  "load_plumed_file pf path c ls = Inr t \<Longrightarrow>
     t \<noteq> [] \<and> (\<forall>r \<in> set t. length r = length (hd t))"
proof -
  assume a: "load_plumed_file pf path c ls = Inr t"
  show ?thesis
  proof (cases "collect_rows pf c ls = []")
    case True
    with a show ?thesis by (simp only: load_unfold if_True) simp
  next
    case False
    with a have "np_array (collect_rows pf c ls) = Inr t" by (simp only: load_unfold if_False)
    from np_array_Inr [OF this]
    have eq: "t = collect_rows pf c ls" and sh: "\<forall>r \<in> set t. length r = length (hd t)"
      by blast+
    from False have "t \<noteq> []" unfolding eq .
    then show ?thesis using sh by (rule conjI)
  qed
qed

theorem loaded_table_shape_witness:
  "load_plumed_file dec_float ''HILLS'' ''#'' [''#! FIELDS time cv'', ''0 1.5'', ''1 1.6'']
     = Inr [[0, 3 / 2], [1, 8 / 5]] \<and>
   [[0, 3 / 2], [1, 8 / 5 :: real]] \<noteq> [] \<and>
   length [0, 3 / 2 :: real] = length (hd [[0, 3 / 2], [1, 8 / 5 :: real]]) \<and>
   length [1, 8 / 5 :: real] = length (hd [[0, 3 / 2], [1, 8 / 5 :: real]])"
proof -
  have l: "load_plumed_file dec_float ''HILLS'' ''#'' [''#! FIELDS time cv'', ''0 1.5'', ''1 1.6'']
             = Inr [[0, 3 / 2], [1, 8 / 5]]"
    by (simp add: load_plumed_file_def text_eval np_array_def)
  note sh = loaded_table_shape [OF l]
  from sh have ne: "[[0, 3 / 2], [1, 8 / 5 :: real]] \<noteq> []" by (rule conjunct1)
  from sh have "\<forall>r \<in> set [[0, 3 / 2], [1, 8 / 5 :: real]].
      length r = length (hd [[0, 3 / 2], [1, 8 / 5 :: real]])" by (rule conjunct2)
  then have r1: "length [0, 3 / 2 :: real] = length (hd [[0, 3 / 2], [1, 8 / 5 :: real]])"
    and r2: "length [1, 8 / 5 :: real] = length (hd [[0, 3 / 2], [1, 8 / 5 :: real]])"
    by simp_all
  from l ne r1 r2 show ?thesis by (intro conjI)
qed

subsection \<open>Bias-decay analysis\<close>

lemma np_column_nonneg:
  "a \<noteq> [] \<Longrightarrow> k < length (hd a) \<Longrightarrow> np_column a (int k) = Inr (map (\<lambda>r. r ! k) a)"
  by (simp add: np_column_def)

lemma np_column_last_of_one:
  "a \<noteq> [] \<Longrightarrow> length (hd a) = 1 \<Longrightarrow> np_column a (- 1) = Inr (map (\<lambda>r. r ! 0) a)"
  by (simp add: np_column_def)

lemma np_column_penultimate:
  assumes "a \<noteq> []" "1 \<le> length (hd a)"
  shows "np_column a (int (length (hd a)) - 2) =
           Inr (map (\<lambda>r. r ! (if length (hd a) = 1 then 0 else length (hd a) - 2)) a)"
proof (cases "length (hd a) = 1")
  case True
  then have "int (length (hd a)) - 2 = - 1" by simp
  with np_column_last_of_one [OF assms(1) True] True show ?thesis by simp
next
  case False
  with assms have two: "2 \<le> length (hd a)" by simp
  then have eq: "int (length (hd a)) - 2 = int (length (hd a) - 2)" by simp
  from two have "length (hd a) - 2 < length (hd a)" by simp
  from np_column_nonneg [OF assms(1) this] False show ?thesis by (simp only: eq if_False)
qed

lemma analyze_hills_table_first_row:
  assumes "hills \<noteq> []" and "1 \<le> length (hd hills)"
  shows "case analyze_hills_table hills of
           Inl e \<Rightarrow> False
         | Inr r \<Rightarrow>
             n_gaussians r = length hills \<and>
             h_initial r = hd hills ! (if length (hd hills) = 1 then 0 else length (hd hills) - 2) \<and>
             h_final r = last hills ! (if length (hd hills) = 1 then 0 else length (hd hills) - 2) \<and>
             h_ratio r = (if 0 < h_initial r then h_final r / h_initial r else 0) \<and>
             total_time_ps r = last hills ! 0"
proof -
  from assms(2) have "0 < length (hd hills)" by linarith
  from np_column_nonneg [OF assms(1) this]
  have c0: "np_column hills 0 = Inr (map (\<lambda>r. r ! 0) hills)" by simp
  note c2 = np_column_penultimate [OF assms]
  have unf: "analyze_hills_table hills =
     (let hs = map (\<lambda>r. r ! (if length (hd hills) = 1 then 0 else length (hd hills) - 2)) hills;
          tm = map (\<lambda>r. r ! 0) hills;
          n = length hs;
          h_i = (if n > 0 then hd hs else 0);
          h_f = (if n > 0 then last hs else 0);
          ratio = (if h_i > 0 then h_f / h_i else 0)
      in Inr \<lparr>time = tm, heights = hs, n_gaussians = n, h_initial = h_i,
              h_final = h_f, h_ratio = ratio,
              total_time_ps = (if n > 0 then last tm else 0)\<rparr>)"
    unfolding analyze_hills_table_def c0 by (simp only: sum.case Let_def c2)
  show ?thesis
    unfolding unf using assms(1) by (simp add: Let_def hd_map last_map)
qed

text \<open>
  C5, as stated, fails: with a negative initial height the reported ratio is \<open>0\<close>, although
  the initial height is not \<open>0\<close> and final / initial is \<open>-2\<close>.
\<close>

theorem analyze_hills_ratio_counterexample:
  "analyze_hills_table [[0, - 1, 15], [1, 2, 15]] =
     Inr \<lparr>time = [0, 1], heights = [- 1, 2], n_gaussians = 2, h_initial = - 1,
          h_final = 2, h_ratio = 0, total_time_ps = 1\<rparr> \<and>
   (- 1 :: real) \<noteq> 0 \<and> (2 :: real) / (- 1) \<noteq> 0"
  by (simp add: analyze_hills_table_def np_column_def Let_def)

text \<open>
  C5, amended. For a non-empty table whose rows all have \<open>c \<ge> 1\<close> columns the analyzer
  returns: the number of rows as gaussian count; the first and the last value of the height
  column as initial and final height, the height column being \<open>c - 2\<close> (for \<open>c = 1\<close> the
  Python index \<open>-1\<close>, which is column \<open>0\<close>); the ratio final / initial when the initial
  height is positive and \<open>0\<close> when it is zero or negative; and the last value of column \<open>0\<close>
  as final time.
\<close>

theorem analyze_hills_table_result:
  assumes "hills \<noteq> []" and "\<forall>r \<in> set hills. length r = c" and "1 \<le> c"
  shows "case analyze_hills_table hills of
           Inl e \<Rightarrow> False
         | Inr r \<Rightarrow>
             n_gaussians r = length hills \<and>
             h_initial r = hd hills ! (if c = 1 then 0 else c - 2) \<and>
             h_final r = last hills ! (if c = 1 then 0 else c - 2) \<and>
             h_ratio r = (if 0 < h_initial r then h_final r / h_initial r else 0) \<and>
             total_time_ps r = last hills ! 0"
proof -
  have c: "length (hd hills) = c" using assms(1,2) by simp
  with assms(3) have "1 \<le> length (hd hills)" by simp
  from analyze_hills_table_first_row [OF assms(1) this] show ?thesis unfolding c .
qed

theorem analyze_hills_table_result_witness:
  "[[0, 6 / 5, 15], [1, 3 / 10, 15 :: real]] \<noteq> [] \<and>
   length [0, 6 / 5, 15 :: real] = 3 \<and> length [1, 3 / 10, 15 :: real] = 3 \<and> (1 :: nat) \<le> 3 \<and>
   analyze_hills_table [[0, 6 / 5, 15], [1, 3 / 10, 15]] =
     Inr \<lparr>time = [0, 1], heights = [6 / 5, 3 / 10], n_gaussians = 2, h_initial = 6 / 5,
          h_final = 3 / 10, h_ratio = 1 / 4, total_time_ps = 1\<rparr>"
  using analyze_hills_table_result [of "[[0, 6 / 5, 15], [1, 3 / 10, 15]]" 3]
  by (simp add: analyze_hills_table_def np_column_def Let_def)

subsection \<open>Time-resolved free-energy span\<close>

text \<open>
  C2 does not hold of the code. When the external program exits with status 0 and its output
  file has no data line, the loader called inside the \<^verbatim>\<open>try\<close> block ends the process with
  \<^verbatim>\<open>sys.exit(1)\<close>; \<^verbatim>\<open>SystemExit\<close> is not an \<^verbatim>\<open>Exception\<close>, so the handler does not catch
  it and the whole analysis stops, although the second window would succeed. When the same
  window fails by exit status instead, it is omitted and the second window is returned.
\<close>

theorem deltaG_empty_output_aborts:
  "compute_deltaG_vs_time dec_float fmt0_int tool_header_only_first
       ''COLVAR'' [''0 1.0'', ''10 1.2'']
       ''HILLS'' [''1 1.0 0.1 1.2 15'', ''6 1.1 0.1 1.0 15''] 2
     = Inl (SystemExit 1 ''ERROR: No se encontraron datos en /tmp/fes_block_5.dat'') \<and>
   compute_deltaG_vs_time dec_float fmt0_int tool_exit1_first
       ''COLVAR'' [''0 1.0'', ''10 1.2'']
       ''HILLS'' [''1 1.0 0.1 1.2 15'', ''6 1.1 0.1 1.0 15''] 2
     = Inr \<lparr>times = [10], deltaG = [7 / 2]\<rparr>"
  by code_simp

subsection \<open>Block averaging\<close>

lemma block_size_pos:
  assumes "1 \<le> B" "B \<le> int (length data)"
  shows "int (length data) div B = int (length data div nat B)" "0 < length data div nat B"
proof -
  show "int (length data) div B = int (length data div nat B)"
    using assms by (simp add: zdiv_int)
  show "0 < length data div nat B"
    using assms by (simp add: div_greater_zero_iff)
qed

lemma block_full:
  assumes "i < n" "n * bs \<le> length data"
  shows "length (py_slice data (i * bs) (i * bs + bs)) = bs"
proof -
  have "Suc i * bs \<le> n * bs" using assms(1) by (intro mult_le_mono1) simp
  then have "i * bs + bs \<le> length data" using assms(2) by simp
  then show ?thesis by (simp add: py_slice_def)
qed

lemma slice_of_prefix:
  assumes "i < n"
  shows "py_slice (take (n * bs) xs) (i * bs) (i * bs + bs) = py_slice xs (i * bs) (i * bs + bs)"
proof -
  have "Suc i * bs \<le> n * bs" using assms by (intro mult_le_mono1) simp
  then have "bs \<le> n * bs - i * bs" by simp
  then show ?thesis by (simp add: py_slice_def drop_take min_def)
qed

lemma block_means_prefix:
  "block_means_of (take (nat B * bs) data) B (int bs) = block_means_of data B (int bs)"
  by (simp add: block_means_of_def py_range_def Let_def slice_of_prefix)

lemma np_std_02: "np_std [0, 2] = 1"
  by (simp add: np_std_def np_mean_def)

lemma sample_std_02: "sample_std [0, 2] = sqrt 2"
  by (simp add: sample_std_def np_mean_def)

text \<open>
  C4, as stated, fails in its last part: for the series \<open>[0, 2]\<close> and two blocks the block
  means are \<open>0\<close> and \<open>2\<close>; the reported standard error is \<open>1 / \<surd>2\<close>, whereas the sample
  standard deviation of the block means divided by \<open>\<surd>2\<close> is \<open>1\<close>. A block count of zero,
  which is not above the series length either, raises \<^verbatim>\<open>ZeroDivisionError\<close>.
\<close>

theorem block_averaging_stderr_counterexample:
  "block_averaging [0, 2] 2 = Inr (1, 1 / sqrt 2, [0, 2]) \<and>
   1 / sqrt 2 \<noteq> sample_std [0, 2] / sqrt (real_of_int 2) \<and>
   block_averaging [0, 2] 0 = Inl ZeroDivisionError"
  by (simp add: block_averaging_def block_means_of_def py_range_def py_slice_def Let_def
        sample_std_02 np_std_02 np_mean_def upt_rec)

text \<open>
  C4, amended. For a block count \<open>B\<close> with \<open>1 \<le> B \<le> length\<close>, the function returns; the list
  of block means has exactly \<open>B\<close> elements; block \<open>i\<close> is the mean of the \<open>i\<close>-th contiguous
  run of \<open>\<lfloor>length / B\<rfloor>\<close> elements, and that run is complete; the reported mean is the mean
  of the block means; and the reported standard error is the population standard deviation
  (divisor \<open>B\<close>, the default of \<^verbatim>\<open>np.std\<close>) of the block means divided by \<open>\<surd>B\<close>.
\<close>

theorem block_averaging_blocks:
  assumes "1 \<le> B" and "B \<le> int (length data)"
  shows "case block_averaging data B of
           Inl e \<Rightarrow> False
         | Inr (mean, stderr, block_means) \<Rightarrow>
             length block_means = nat B \<and>
             (\<forall>i < nat B.
                block_means ! i =
                  np_mean (py_slice data (i * (length data div nat B))
                             (i * (length data div nat B) + length data div nat B)) \<and>
                length (py_slice data (i * (length data div nat B))
                          (i * (length data div nat B) + length data div nat B))
                  = length data div nat B) \<and>
             mean = np_mean block_means \<and>
             stderr = np_std block_means / sqrt (real_of_int B)"
proof -
  let ?bs = "length data div nat B"
  have bs: "int (length data) div B = int ?bs" "0 < ?bs"
    using block_size_pos [OF assms] by simp_all
  have fit: "nat B * ?bs \<le> length data" by simp
  have B0: "B \<noteq> 0" using assms(1) by simp
  have full: "\<And>i. i < nat B \<Longrightarrow> length (py_slice data (i * ?bs) (i * ?bs + ?bs)) = ?bs"
    using block_full [OF _ fit] by blast
  show ?thesis
    using bs B0 full
    by (simp add: block_averaging_def block_means_of_def py_range_def Let_def)
qed

theorem block_averaging_blocks_witness:
  "(1::int) \<le> 2 \<and> 2 \<le> int (length [1, 2, 3, 4, 100 :: real]) \<and>
   block_averaging [1, 2, 3, 4, 100] 2 =
     Inr (5 / 2, np_std [3 / 2, 7 / 2] / sqrt 2, [3 / 2, 7 / 2])"
  using block_averaging_blocks [of 2 "[1, 2, 3, 4, 100]"]
  by (simp add: block_averaging_def block_means_of_def py_range_def py_slice_def np_mean_def
        Let_def upt_rec)

text \<open>
  C6. A series shorter than the block count is not an error: the result is the mean of the
  series, its standard deviation, and the one-element list holding the mean.
\<close>

theorem block_averaging_degenerate:
  "int (length data) < B \<Longrightarrow>
     block_averaging data B = Inr (np_mean data, np_std data, [np_mean data])"
  by (simp add: block_averaging_def div_pos_pos_trivial)

theorem block_averaging_degenerate_witness:
  "int (length [1, 2, 3 :: real]) < 5 \<and>
   block_averaging [1, 2, 3] 5 = Inr (2, np_std [1, 2, 3], [2])"
  using block_averaging_degenerate [of "[1, 2, 3]" 5] by (simp add: np_mean_def)

lemma block_averaging_tail_pos:
  assumes "1 \<le> B" "B \<le> int (length data)" "length data' = length data"
    "take (nat B * (length data div nat B)) data' = take (nat B * (length data div nat B)) data"
  shows "block_averaging data' B = block_averaging data B"
proof -
  let ?bs = "length data div nat B"
  have bs: "int (length data) div B = int ?bs" using block_size_pos(1) [OF assms(1,2)] .
  have "block_means_of data' B (int ?bs) = block_means_of (take (nat B * ?bs) data') B (int ?bs)"
    by (simp only: block_means_prefix)
  also have "\<dots> = block_means_of (take (nat B * ?bs) data) B (int ?bs)" using assms(4) by simp
  also have "\<dots> = block_means_of data B (int ?bs)" by (simp only: block_means_prefix)
  finally have "block_means_of data' B (int ?bs) = block_means_of data B (int ?bs)" .
  moreover have "0 < ?bs" using block_size_pos(2) [OF assms(1,2)] .
  ultimately show ?thesis
    using assms(1,3) bs by (simp add: block_averaging_def Let_def)
qed

lemma block_averaging_tail_nonpos:
  assumes "B \<le> 0" "length data' = length data"
  shows "block_averaging data' B = block_averaging data B"
proof (cases "B = 0")
  case True
  then show ?thesis by (simp add: block_averaging_def)
next
  case False
  with assms(1) have neg: "B < 0" by simp
  show ?thesis
  proof (cases "data = []")
    case True
    with assms(2) have "data' = []" by simp
    with True show ?thesis by simp
  next
    case False
    have r: "py_range B = []" using neg by (simp add: py_range_def)
    have "int (length data) div B < 0" using neg False by (simp add: neg_imp_zdiv_neg_iff)
    then have nz: "int (length data) div B \<noteq> 0" by simp
    show ?thesis
      using assms(2) nz by (simp add: block_averaging_def block_means_of_def r Let_def)
  qed
qed

text \<open>
  C10. With \<open>B \<le> n\<close>, the elements from position \<open>B * \<lfloor>n / B\<rfloor>\<close> on belong to no block: two
  series of the same length that agree before that position give the same mean, standard
  error and block means. The reported mean can differ from the mean of the whole series.
\<close>

theorem block_averaging_ignores_tail:
  "(B \<le> int (length data) \<and> length data' = length data \<and>
    take (nat B * (length data div nat B)) data' = take (nat B * (length data div nat B)) data
      \<longrightarrow> block_averaging data' B = block_averaging data B) \<and>
   (\<exists>d b m s bm. 1 \<le> b \<and> b \<le> int (length d) \<and> block_averaging d b = Inr (m, s, bm) \<and>
                  m \<noteq> np_mean d)"
proof (intro conjI impI)
  assume a: "B \<le> int (length data) \<and> length data' = length data \<and>
    take (nat B * (length data div nat B)) data' = take (nat B * (length data div nat B)) data"
  show "block_averaging data' B = block_averaging data B"
  proof (cases "1 \<le> B")
    case True
    with a show ?thesis using block_averaging_tail_pos [of B data data'] by blast
  next
    case False
    then have "B \<le> 0" by simp
    with a show ?thesis using block_averaging_tail_nonpos [of B data' data] by blast
  qed
next
  have "block_averaging [1, 2, 3, 4, 100] 2 =
          Inr (5 / 2, np_std [3 / 2, 7 / 2] / sqrt 2, [3 / 2, 7 / 2])"
    by (simp add: block_averaging_def block_means_of_def py_range_def py_slice_def np_mean_def
          Let_def upt_rec)
  moreover have "np_mean [1, 2, 3, 4, 100] = 22" by (simp add: np_mean_def)
  ultimately show "\<exists>d b m s bm. 1 \<le> b \<and> b \<le> int (length d) \<and>
      block_averaging d b = Inr (m, s, bm) \<and> m \<noteq> np_mean d"
    by (intro exI [of _ "[1, 2, 3, 4, 100]"] exI [of _ 2] exI [of _ "5 / 2"]
          exI [of _ "np_std [3 / 2, 7 / 2] / sqrt 2"] exI [of _ "[3 / 2, 7 / 2]"]) simp
qed

theorem block_averaging_ignores_tail_witness:
  "2 \<le> int (length [1, 2, 3, 4, 100 :: real]) \<and>
   length [1, 2, 3, 4, - 7 :: real] = length [1, 2, 3, 4, 100 :: real] \<and>
   block_averaging [1, 2, 3, 4, - 7] 2 = block_averaging [1, 2, 3, 4, 100] 2"
  using block_averaging_ignores_tail [of 2 "[1, 2, 3, 4, 100]" "[1, 2, 3, 4, - 7]"] by simp

subsection \<open>Local minima\<close>

lemma slice_nonempty:
  "a \<le> idx \<Longrightarrow> idx < length xs \<Longrightarrow> py_slice xs a (idx + 1) \<noteq> []"
  by (simp add: py_slice_def)

lemma subseq_subset: "subseq xs ys \<Longrightarrow> set xs \<subseteq> set ys"
  using list_emb_set [of "(=)" xs ys] by auto

lemma filter_loop_step:
  assumes "last F \<le> idx" "idx < length fes"
  shows "filter_loop fes thr F (idx # rest) =
           (if thr \<le> barrier_of fes (last F) idx then filter_loop fes thr (F @ [idx]) rest
            else filter_loop fes thr F rest)"
  using assms slice_nonempty [OF assms]
  by (simp add: np_max_def barrier_of_def Let_def)

lemma anchor_prefix:
  fixes c :: nat
  assumes "\<forall>r \<in> set F. r < c" "\<forall>r \<in> set R. c \<le> r"
  shows "filter (\<lambda>r. r < c) (F @ R) = F"
proof -
  have "filter (\<lambda>r. r < c) F = F" using assms(1) by (simp add: filter_id_conv)
  moreover have "\<forall>x \<in> set R. \<not> x < c" using assms(2) by (simp add: not_less)
  then have "filter (\<lambda>r. r < c) R = []" by (simp add: filter_empty_conv)
  ultimately show ?thesis by simp
qed

lemma filter_loop_char:
  assumes "F \<noteq> []" "sorted_wrt (<) (F @ cs)" "\<forall>c \<in> set cs. c < length fes"
  shows "\<exists>R. filter_loop fes thr F cs = Inr (F @ R) \<and> subseq R cs \<and>
             (\<forall>c \<in> set cs. c \<in> set R \<longleftrightarrow> thr \<le> barrier_of fes (anchor_of (F @ R) c) c)"
  using assms
proof (induction cs arbitrary: F)
  case Nil
  then show ?case by simp
next
  case (Cons c cs)
  have Fc: "\<forall>r \<in> set F. r < c" using Cons.prems(2) by (auto simp: sorted_wrt_append)
  have ccs: "\<forall>r \<in> set cs. c < r" using Cons.prems(2) by (auto simp: sorted_wrt_append)
  have lastF: "last F \<le> c" using Fc Cons.prems(1) by (simp add: less_imp_le)
  have cin: "c < length fes" using Cons.prems(3) by simp
  note step = filter_loop_step [OF lastF cin, of thr cs]
  show ?case
  proof (cases "thr \<le> barrier_of fes (last F) c")
    case True
    have s: "sorted_wrt (<) ((F @ [c]) @ cs)" using Cons.prems(2) by simp
    from Cons.IH [of "F @ [c]", OF _ s] Cons.prems(3)
    obtain R where R: "filter_loop fes thr (F @ [c]) cs = Inr ((F @ [c]) @ R)" "subseq R cs"
      "\<forall>x \<in> set cs. x \<in> set R \<longleftrightarrow> thr \<le> barrier_of fes (anchor_of ((F @ [c]) @ R) x) x"
      by auto
    have Rcs: "set R \<subseteq> set cs" using R(2) by (rule subseq_subset)
    have Rge: "\<forall>r \<in> set (c # R). c \<le> r"
    proof
      fix r assume "r \<in> set (c # R)"
      then have "r = c \<or> r \<in> set cs" using Rcs by auto
      then show "c \<le> r" using ccs by (auto simp: less_imp_le)
    qed
    have anc: "anchor_of (F @ c # R) c = last F"
      unfolding anchor_of_def by (simp only: anchor_prefix [OF Fc Rge])
    have "filter_loop fes thr F (c # cs) = Inr (F @ (c # R))" using step True R(1) by simp
    moreover have "subseq (c # R) (c # cs)" using R(2) by simp
    moreover have "\<forall>x \<in> set (c # cs). x \<in> set (c # R) \<longleftrightarrow>
        thr \<le> barrier_of fes (anchor_of (F @ (c # R)) x) x"
      using R(3) True anc ccs by auto
    ultimately show ?thesis by blast
  next
    case False
    have s: "sorted_wrt (<) (F @ cs)" using Cons.prems(2) by (auto simp: sorted_wrt_append)
    from Cons.IH [of F, OF Cons.prems(1) s] Cons.prems(3)
    obtain R where R: "filter_loop fes thr F cs = Inr (F @ R)" "subseq R cs"
      "\<forall>x \<in> set cs. x \<in> set R \<longleftrightarrow> thr \<le> barrier_of fes (anchor_of (F @ R) x) x"
      by auto
    have Rcs: "set R \<subseteq> set cs" using R(2) by (rule subseq_subset)
    have Rge: "\<forall>r \<in> set R. c \<le> r"
    proof
      fix r assume "r \<in> set R"
      then have "r \<in> set cs" using Rcs by auto
      then show "c \<le> r" using ccs by (auto simp: less_imp_le)
    qed
    have anc: "anchor_of (F @ R) c = last F"
      unfolding anchor_of_def by (simp only: anchor_prefix [OF Fc Rge])
    have cR: "c \<notin> set R" using Rcs ccs by auto
    have "filter_loop fes thr F (c # cs) = Inr (F @ R)" using step False R(1) by simp
    moreover have "subseq R (c # cs)" using R(2) by (rule list_emb_Cons)
    moreover have "\<forall>x \<in> set (c # cs). x \<in> set R \<longleftrightarrow>
        thr \<le> barrier_of fes (anchor_of (F @ R) x) x"
      using R(3) False anc cR by auto
    ultimately show ?thesis by blast
  qed
qed

text \<open>Both candidate detectors return indices of the profile in increasing order, so the
  filtering loop never takes the maximum of an empty slice and never indexes out of range.\<close>

lemma fallback_minima_sorted:
  "sorted_wrt (<) (fallback_minima xs w) \<and> (\<forall>c \<in> set (fallback_minima xs w). c < length xs)"
  by (auto simp: fallback_minima_def sorted_wrt_filter)

lemma argrelmin_sorted:
  "sorted_wrt (<) (argrelmin xs w) \<and> (\<forall>c \<in> set (argrelmin xs w). c < length xs)"
  by (auto simp: argrelmin_def sorted_wrt_filter)

text \<open>A missing file and a file without data rows give "no result"; otherwise the loaded
  table is analysed.\<close>

lemma find_fes_minima_cases:
  "find_fes_minima pf scipy path None thr = Inr None"
  "load_plumed_file pf path ''#'' ls = Inl (SystemExit code msg) \<Longrightarrow>
     find_fes_minima pf scipy path (Some ls) thr = Inr None"
  "load_plumed_file pf path ''#'' ls = Inr data \<Longrightarrow>
     find_fes_minima pf scipy path (Some ls) thr = fes_minima_of_table scipy data thr"
  by (simp_all add: find_fes_minima_def)

lemma two_wells_candidates: "fallback_minima two_wells 3 = [3, 9]"
  by (simp add: fallback_minima_def two_wells_def py_slice_def)

text \<open>
  C1, as stated, fails. In the profile \<open>two_wells\<close> the candidates are the indices 3 and 9.
  With threshold 2.5 the largest value between them is 5, which is at least the threshold,
  yet candidate 9 is dropped: the loop compares the threshold with that maximum minus the
  candidate's own energy, \<open>5 - 3 = 2\<close>.
\<close>

theorem filter_minima_counterexample:
  "fallback_minima two_wells 3 = [3, 9] \<and>
   filter_minima two_wells (5 / 2) [3, 9] = Inr [3] \<and>
   Max (set (py_slice two_wells 3 (9 + 1))) = 5 \<and> (5 / 2 :: real) \<le> 5 \<and> 9 \<notin> set [3 :: nat]"
  by (simp add: two_wells_candidates filter_minima_def np_max_def) (simp add: two_wells_def py_slice_def)

text \<open>
  C1, amended. For a non-empty list of candidate indices in increasing order, all within the
  profile, the filtering returns a list that starts with the first candidate and is a
  subsequence of the candidates; every later candidate is retained if and only if the
  largest profile value between the previously retained minimum and the candidate (both
  included), minus the profile value at the candidate, is at least the threshold. The
  previously retained minimum is the last retained index below the candidate, so a retained
  candidate is the anchor of the candidates after it.
\<close>

theorem filter_minima_retention:
  assumes "cands \<noteq> []" and "sorted_wrt (<) cands" and "\<forall>c \<in> set cands. c < length fes"
  shows "\<exists>kept. filter_minima fes thr cands = Inr kept \<and>
           hd kept = hd cands \<and> subseq kept cands \<and>
           (\<forall>c \<in> set (tl cands).
               c \<in> set kept \<longleftrightarrow> thr \<le> barrier_of fes (anchor_of kept c) c)"
proof -
  obtain c0 rest where cr: "cands = c0 # rest" using assms(1) by (cases cands) auto
  have s: "sorted_wrt (<) ([c0] @ rest)" using assms(2) cr by simp
  have r: "\<forall>c \<in> set rest. c < length fes" using assms(3) cr by simp
  from filter_loop_char [of "[c0]" rest fes thr, OF _ s r]
  obtain R where R: "filter_loop fes thr [c0] rest = Inr ([c0] @ R)" "subseq R rest"
    "\<forall>c \<in> set rest. c \<in> set R \<longleftrightarrow> thr \<le> barrier_of fes (anchor_of ([c0] @ R) c) c"
    by auto
  have c0r: "\<forall>c \<in> set rest. c \<noteq> c0" using assms(2) cr by auto
  have "filter_minima fes thr cands = Inr (c0 # R)" using R(1) cr by (simp add: filter_minima_def)
  moreover have "hd (c0 # R) = hd cands" using cr by simp
  moreover have "subseq (c0 # R) cands" using R(2) cr by simp
  moreover have "\<forall>c \<in> set (tl cands).
      c \<in> set (c0 # R) \<longleftrightarrow> thr \<le> barrier_of fes (anchor_of (c0 # R) c) c"
    using R(3) c0r cr by auto
  ultimately show ?thesis by blast
qed

theorem filter_minima_retention_witness:
  "[3, 9 :: nat] \<noteq> [] \<and> sorted_wrt (<) [3, 9 :: nat] \<and>
   3 < length two_wells \<and> 9 < length two_wells \<and>
   (\<exists>kept. filter_minima two_wells (3 / 2) [3, 9] = Inr kept \<and> hd kept = 3 \<and>
       subseq kept [3, 9] \<and>
       (9 \<in> set kept \<longleftrightarrow> 3 / 2 \<le> barrier_of two_wells (anchor_of kept 9) 9)) \<and>
   filter_minima two_wells (3 / 2) [3, 9] = Inr [3, 9]"
proof -
  have h1: "[3, 9 :: nat] \<noteq> []" by simp
  have h2: "sorted_wrt (<) [3, 9 :: nat]" by simp
  have h3: "\<forall>c \<in> set [3, 9 :: nat]. c < length two_wells" by (simp add: two_wells_def)
  have l: "3 < length two_wells" "9 < length two_wells" by (simp_all add: two_wells_def)
  from filter_minima_retention [OF h1 h2 h3, of "3 / 2"]
  have ex: "\<exists>kept. filter_minima two_wells (3 / 2) [3, 9] = Inr kept \<and> hd kept = 3 \<and>
       subseq kept [3, 9] \<and>
       (9 \<in> set kept \<longleftrightarrow> 3 / 2 \<le> barrier_of two_wells (anchor_of kept 9) 9)"
    by simp
  have ev: "filter_minima two_wells (3 / 2) [3, 9] = Inr [3, 9]"
    by (simp add: filter_minima_def np_max_def two_wells_def py_slice_def)
  from h1 h2 l ex ev show ?thesis by (intro conjI)
qed

lemma filter_upt_single:
  assumes "a \<le> m" "m < b" "\<And>i. a \<le> i \<Longrightarrow> i < b \<Longrightarrow> P i \<longleftrightarrow> i = m"
  shows "filter P [a..<b] = [m]"
proof -
  have split: "[a..<b] = [a..<m] @ m # [Suc m..<b]"
    using assms(1,2) by (metis le_add_diff_inverse less_imp_le_nat upt_add_eq_append upt_conv_Cons)
  have l: "filter P [a..<m] = []" using assms by (auto simp: filter_empty_conv)
  have r: "filter P [Suc m..<b] = []" using assms by (auto simp: filter_empty_conv)
  have "P m" using assms by simp
  then show ?thesis unfolding split using l r by simp
qed

lemma dec_chain:
  fixes f :: "nat \<Rightarrow> real"
  assumes "\<forall>i<m. f (Suc i) < f i"
  shows "i < m \<Longrightarrow> f m < f i"
  using assms
proof (induction m)
  case 0
  then show ?case by simp
next
  case (Suc m)
  show ?case
  proof (cases "i = m")
    case True
    with Suc.prems(2) show ?thesis by simp
  next
    case False
    with Suc.prems(1) have "i < m" by simp
    moreover have "\<forall>i<m. f (Suc i) < f i" using Suc.prems(2) by simp
    ultimately have "f m < f i" using Suc.IH by blast
    moreover have "f (Suc m) < f m" using Suc.prems(2) by simp
    ultimately show ?thesis by simp
  qed
qed

lemma inc_chain:
  fixes f :: "nat \<Rightarrow> real"
  assumes "\<forall>i. m \<le> i \<and> Suc i < n \<longrightarrow> f i < f (Suc i)"
  shows "m < j \<Longrightarrow> j < n \<Longrightarrow> f m < f j"
proof (induction j)
  case 0
  then show ?case by simp
next
  case (Suc j)
  have step: "f j < f (Suc j)" using assms Suc.prems by simp
  show ?case
  proof (cases "m = j")
    case True
    with step show ?thesis by simp
  next
    case False
    with Suc.prems have "m < j" "j < n" by simp_all
    then have "f m < f j" using Suc.IH by blast
    with step show ?thesis by simp
  qed
qed

lemma unimodal_inc:
  "unimodal_at xs m \<Longrightarrow> m \<le> k \<Longrightarrow> Suc k < length xs \<Longrightarrow> xs ! k < xs ! Suc k"
  by (simp add: unimodal_at_def)

lemma unimodal_strict_min:
  assumes "unimodal_at xs m" "j < length xs" "j \<noteq> m"
  shows "xs ! m < xs ! j"
proof (cases "j < m")
  case True
  then show ?thesis using dec_chain [of m "\<lambda>i. xs ! i" j] assms(1) by (simp add: unimodal_at_def)
next
  case False
  with assms(3) have "m < j" by simp
  then show ?thesis using inc_chain [of m "length xs" "\<lambda>i. xs ! i" j] assms(1,2)
    by (simp add: unimodal_at_def)
qed

lemma unimodal_Min:
  assumes "unimodal_at xs m" "m < length xs"
  shows "Min (set xs) = xs ! m"
proof (rule Min_eqI)
  show "finite (set xs)" by simp
  show "xs ! m \<in> set xs" using assms(2) by simp
  fix y assume "y \<in> set xs"
  then obtain j where j: "j < length xs" "y = xs ! j" by (auto simp: in_set_conv_nth)
  show "xs ! m \<le> y"
  proof (cases "j = m")
    case True with j show ?thesis by simp
  next
    case False
    from unimodal_strict_min [OF assms(1) j(1) False] j show ?thesis by simp
  qed
qed

lemma slice_nth_mem:
  assumes "a \<le> k" "k < b" "k < length xs"
  shows "xs ! k \<in> set (py_slice xs a b)"
proof -
  have "py_slice xs a b ! (k - a) = xs ! k" using assms by (simp add: py_slice_def)
  moreover have "k - a < length (py_slice xs a b)"
    using assms by (auto simp: py_slice_def intro: diff_less_mono)
  ultimately show ?thesis by (metis nth_mem)
qed

lemma slice_subset: "set (py_slice xs a b) \<subseteq> set xs"
  by (auto simp: py_slice_def dest: in_set_takeD in_set_dropD)

lemma fallback_unimodal:
  assumes u: "unimodal_at xs m" and w: "1 \<le> w" "w \<le> m" "m + w < length xs"
  shows "fallback_minima xs w = [m]"
  unfolding fallback_minima_def
proof (rule filter_upt_single)
  show "w \<le> m" by fact
  show "m < length xs - w" using w by simp
  fix i assume i: "w \<le> i" "i < length xs - w"
  let ?S = "py_slice xs (max 0 (i - w)) (i + w + 1)"
  have il: "i < length xs" using i by simp
  have mem: "xs ! i \<in> set ?S" using slice_nth_mem [of "max 0 (i - w)" i "i + w + 1" xs] il by simp
  have fin: "finite (set ?S)" by simp
  show "(xs ! i = Min (set ?S)) \<longleftrightarrow> i = m"
  proof
    assume eq: "xs ! i = Min (set ?S)"
    show "i = m"
    proof (rule ccontr)
      assume ne: "i \<noteq> m"
      show False
      proof (cases "i < m")
        case True
        then have lt: "xs ! Suc i < xs ! i" using u by (simp add: unimodal_at_def)
        have "Suc i < length xs" using True w by simp
        then have "xs ! Suc i \<in> set ?S"
          using slice_nth_mem [of "max 0 (i - w)" "Suc i" "i + w + 1" xs] w(1) by simp
        then have "Min (set ?S) \<le> xs ! Suc i" using fin by simp
        with eq lt show False by simp
      next
        case False
        with ne have gt: "m < i" by simp
        then have "m \<le> i - 1" "Suc (i - 1) = i" by simp_all
        then have lt: "xs ! (i - 1) < xs ! i" using unimodal_inc [OF u, of "i - 1"] il by simp
        have "xs ! (i - 1) \<in> set ?S"
          using slice_nth_mem [of "max 0 (i - w)" "i - 1" "i + w + 1" xs] w(1) il gt by simp
        then have "Min (set ?S) \<le> xs ! (i - 1)" using fin by simp
        with eq lt show False by simp
      qed
    qed
  next
    assume "i = m"
    have "Min (set ?S) = xs ! i"
    proof (rule Min_eqI [OF fin _ mem])
      fix y assume "y \<in> set ?S"
      then have "y \<in> set xs" by (rule subsetD [OF slice_subset])
      then have "Min (set xs) \<le> y" by simp
      then show "xs ! i \<le> y" using unimodal_Min [OF u] w \<open>i = m\<close> by simp
    qed
    then show "xs ! i = Min (set ?S)" by simp
  qed
qed

lemma argrelmin_unimodal:
  assumes u: "unimodal_at xs m" and w: "1 \<le> w" "w \<le> m" "m + w < length xs"
  shows "argrelmin xs w = [m]"
  unfolding argrelmin_def
proof (rule filter_upt_single)
  show "0 \<le> m" by simp
  show ml: "m < length xs" using w by simp
  fix i assume i: "0 \<le> i" "i < length xs"
  let ?P = "\<lambda>s. xs ! i < xs ! min (i + s) (length xs - 1) \<and> xs ! i < xs ! (i - s)"
  show "list_all ?P [1..<w + 1] \<longleftrightarrow> i = m"
  proof
    assume all: "list_all ?P [1..<w + 1]"
    from all have "\<forall>s \<in> set [1..<w + 1]. ?P s" by (simp only: list_all_iff)
    moreover have "1 \<in> set [1..<w + 1]" using w(1) by auto
    ultimately have "?P 1" by blast
    then have a: "xs ! i < xs ! min (i + 1) (length xs - 1)" and b: "xs ! i < xs ! (i - 1)" by simp_all
    show "i = m"
    proof (rule ccontr)
      assume ne: "i \<noteq> m"
      show False
      proof (cases "i < m")
        case True
        then have "xs ! Suc i < xs ! i" using u by (simp add: unimodal_at_def)
        moreover have "min (i + 1) (length xs - 1) = Suc i" using True ml by simp
        ultimately show False using a by simp
      next
        case False
        with ne have "m < i" by simp
        then have "m \<le> i - 1" "Suc (i - 1) = i" by simp_all
        then have "xs ! (i - 1) < xs ! i" using unimodal_inc [OF u, of "i - 1"] i by simp
        with b show False by simp
      qed
    qed
  next
    assume im: "i = m"
    have "\<And>s. 1 \<le> s \<Longrightarrow> s < w + 1 \<Longrightarrow> ?P s"
    proof -
      fix s :: nat assume s: "1 \<le> s" "s < w + 1"
      have "min (i + s) (length xs - 1) \<noteq> m" using im s w by simp
      moreover have "min (i + s) (length xs - 1) < length xs" using ml by simp
      ultimately have 1: "xs ! m < xs ! min (i + s) (length xs - 1)"
        using unimodal_strict_min [OF u] by blast
      have "i - s \<noteq> m" using im s w by simp
      moreover have "i - s < length xs" using i by simp
      ultimately have 2: "xs ! m < xs ! (i - s)" using unimodal_strict_min [OF u] by blast
      from 1 2 im show "?P s" by simp
    qed
    then have "\<forall>s \<in> set [1..<w + 1]. ?P s" by auto
    then show "list_all ?P [1..<w + 1]" by (simp only: list_all_iff)
  qed
qed

lemma unimodal_shift:
  assumes "unimodal_at xs m" "m < length xs"
  shows "unimodal_at (map (\<lambda>e. e - c) xs) m"
  using assms by (simp add: unimodal_at_def)

lemma pairs_of_single: "pairs_of [x] = []"
  by (simp add: pairs_of_def)

lemma fes_minima_unimodal:
  assumes cols: "2 \<le> length (hd data)"
    and u: "unimodal_at (map (\<lambda>r. r ! 1) data) m"
    and w: "max 3 (length data div 50) \<le> m" "m + max 3 (length data div 50) < length data"
  shows "fes_minima_of_table scipy data thr =
           Inr (Some \<lparr>cv = [data ! m ! 0], energies = [0], deltaG_pairs = [], n_minima = 1\<rparr>)"
proof -
  let ?col1 = "map (\<lambda>r. r ! 1) data"
  let ?fes = "map (\<lambda>e. e - Min (set ?col1)) ?col1"
  let ?w = "max 3 (length ?fes div 50)"
  have ml: "m < length data" using w by simp
  have uf: "unimodal_at ?fes m" using unimodal_shift [OF u] ml by simp
  have w1: "1 \<le> ?w" by simp
  have w2: "?w \<le> m" using w by simp
  have w3: "m + ?w < length ?fes" using w by simp
  have cand: "(if scipy then argrelmin ?fes ?w else fallback_minima ?fes ?w) = [m]"
    using argrelmin_unimodal [OF uf w1 w2 w3] fallback_unimodal [OF uf w1 w2 w3] by simp
  have minm: "Min (set ?col1) = ?col1 ! m" using unimodal_Min [OF u] ml by simp
  have zero: "?fes ! m = 0" using ml minm by simp
  have filt: "filter_minima ?fes thr [m] = Inr [m]" by (simp add: filter_minima_def)
  have cvm: "map (\<lambda>r. r ! 0) data ! m = data ! m ! 0" using ml by simp
  have nc: "\<not> length (hd data) < 2" using cols by simp
  show ?thesis
    unfolding fes_minima_of_table_def Let_def
    by (simp only: nc if_False cand filt zero cvm pairs_of_single sum.case list.simps
          list.size not_Cons_self2 minima.simps) simp
qed

lemma parabola_unimodal: "unimodal_at (map (\<lambda>r. r ! 1) parabola) 5"
  unfolding unimodal_at_def parabola_def
proof (intro conjI allI impI)
  fix i :: nat assume "i < 5"
  then consider "i = 0" | "i = 1" | "i = 2" | "i = 3" | "i = 4" by linarith
  then show "map (\<lambda>r. r ! 1) [[- 5, 25], [- 4, 16], [- 3, 9], [- 2, 4], [- 1, 1], [0, 0],
               [1, 1], [2, 4], [3, 9], [4, 16], [5, 25 :: real]] ! Suc i <
        map (\<lambda>r. r ! 1) [[- 5, 25], [- 4, 16], [- 3, 9], [- 2, 4], [- 1, 1], [0, 0],
               [1, 1], [2, 4], [3, 9], [4, 16], [5, 25]] ! i"
    by cases simp_all
next
  fix i :: nat
  assume "5 \<le> i \<and> Suc i < length (map (\<lambda>r. r ! 1) [[- 5, 25], [- 4, 16], [- 3, 9], [- 2, 4], [- 1, 1], [0, 0],
               [1, 1], [2, 4], [3, 9], [4, 16], [5, 25 :: real]])"
  then have "5 \<le> i" "i < 10" by simp_all
  then consider "i = 5" | "i = 6" | "i = 7" | "i = 8" | "i = 9" by linarith
  then show "map (\<lambda>r. r ! 1) [[- 5, 25], [- 4, 16], [- 3, 9], [- 2, 4], [- 1, 1], [0, 0],
               [1, 1], [2, 4], [3, 9], [4, 16], [5, 25 :: real]] ! i <
        map (\<lambda>r. r ! 1) [[- 5, 25], [- 4, 16], [- 3, 9], [- 2, 4], [- 1, 1], [0, 0],
               [1, 1], [2, 4], [3, 9], [4, 16], [5, 25]] ! Suc i"
    by cases simp_all
qed

lemma parabola_shape:
  "2 \<le> length (hd parabola)" "max 3 (length parabola div 50) \<le> 5"
  "5 + max 3 (length parabola div 50) < length parabola" "parabola ! 5 ! 0 = 0"
  by (simp_all add: parabola_def)

text \<open>
  C7, as stated, fails. For the parabola the detector, with or without SciPy, finds the
  global minimum as a candidate and returns a result with one minimum, not the empty result.
\<close>

theorem parabola_counterexample:
  "fes_minima_of_table False parabola (5 / 2) =
     Inr (Some \<lparr>cv = [0], energies = [0], deltaG_pairs = [], n_minima = 1\<rparr>) \<and>
   fes_minima_of_table True parabola (5 / 2) =
     Inr (Some \<lparr>cv = [0], energies = [0], deltaG_pairs = [], n_minima = 1\<rparr>) \<and>
   fallback_minima (map (\<lambda>r. r ! 1) parabola) 3 = [5]"
proof -
  note r = fes_minima_unimodal [OF parabola_shape(1) parabola_unimodal parabola_shape(2,3)]
  have c: "fallback_minima (map (\<lambda>r. r ! 1) parabola) 3 = [5]"
    using fallback_unimodal [OF parabola_unimodal, of 3] by (simp add: parabola_def)
  from r [of False "5 / 2"] r [of True "5 / 2"] c show ?thesis
    by (simp only: parabola_shape(4))
qed

text \<open>
  C7, amended. For a profile table with at least two columns whose energies fall strictly
  up to an index \<open>m\<close> and rise strictly from it, where \<open>m\<close> lies at least the window
  half-width \<open>max 3 (n div 50)\<close> away from both ends, the detector returns exactly one
  minimum, the global one at normalised energy \<open>0\<close>, and no pairwise differences. This holds
  for both candidate detectors.
\<close>

theorem unimodal_profile_one_minimum:
  assumes "2 \<le> length (hd data)"
    and "unimodal_at (map (\<lambda>r. r ! 1) data) m"
    and "max 3 (length data div 50) \<le> m"
    and "m + max 3 (length data div 50) < length data"
  shows "fes_minima_of_table scipy data thr =
           Inr (Some \<lparr>cv = [data ! m ! 0], energies = [0], deltaG_pairs = [], n_minima = 1\<rparr>)"
  using assms by (rule fes_minima_unimodal)

theorem unimodal_profile_one_minimum_witness:
  "2 \<le> length (hd parabola) \<and> unimodal_at (map (\<lambda>r. r ! 1) parabola) 5 \<and>
   max 3 (length parabola div 50) \<le> 5 \<and> 5 + max 3 (length parabola div 50) < length parabola \<and>
   fes_minima_of_table True parabola 1 =
     Inr (Some \<lparr>cv = [parabola ! 5 ! 0], energies = [0], deltaG_pairs = [], n_minima = 1\<rparr>)"
proof -
  note ps = parabola_shape(1) parabola_unimodal parabola_shape(2,3)
  from ps unimodal_profile_one_minimum [OF ps, of True 1] show ?thesis by (intro conjI)
qed

subsection \<open>Stability verdict of the report\<close>

text \<open>
  C8, as stated, fails: for three window spans the report has the line of the last span and
  no verdict.
\<close>

theorem stability_verdict_counterexample:
  "[1, 2, 3 :: real] \<noteq> [] \<and>
   deltaG_report_lines [1, 2, 3] = [DeltaG_ultimo_bloque 3] \<and>
   OK_DeltaG_estable \<notin> set (deltaG_report_lines [1, 2, 3]) \<and>
   WARN_DeltaG_inestable \<notin> set (deltaG_report_lines [1, 2, 3])"
  by (simp add: deltaG_report_lines_def)

text \<open>
  C8, amended. For more than three window spans the report contains the verdict: stable if
  and only if the standard deviation of the last three spans is below 2, unstable otherwise.
  For three spans or fewer it contains neither verdict.
\<close>

theorem stability_verdict:
  "(3 < length dG \<longrightarrow>
      (OK_DeltaG_estable \<in> set (deltaG_report_lines dG) \<longleftrightarrow> np_std (drop (length dG - 3) dG) < 2) \<and>
      (WARN_DeltaG_inestable \<in> set (deltaG_report_lines dG) \<longleftrightarrow> \<not> np_std (drop (length dG - 3) dG) < 2) \<and>
      length (drop (length dG - 3) dG) = 3) \<and>
   (length dG \<le> 3 \<longrightarrow>
      OK_DeltaG_estable \<notin> set (deltaG_report_lines dG) \<and>
      WARN_DeltaG_inestable \<notin> set (deltaG_report_lines dG))"
  by (auto simp add: deltaG_report_lines_def Let_def)

theorem stability_verdict_witness:
  "3 < length [5, 1, 1, 1 :: real] \<and> np_std (drop (length [5, 1, 1, 1 :: real] - 3) [5, 1, 1, 1]) < 2 \<and>
   OK_DeltaG_estable \<in> set (deltaG_report_lines [5, 1, 1, 1]) \<and>
   WARN_DeltaG_inestable \<notin> set (deltaG_report_lines [5, 1, 1, 1])"
proof -
  have s: "np_std (drop (length [5, 1, 1, 1 :: real] - 3) [5, 1, 1, 1]) < 2"
    by (simp add: np_std_def np_mean_def)
  have l: "3 < length [5, 1, 1, 1 :: real]" by simp
  from stability_verdict [of "[5, 1, 1, 1]"] l s show ?thesis by blast
qed

end
